theory Spec2Isabelle
  imports Complex_Main "HOL-Library.Sublist"
begin

section \<open>Python values used by the assistant\<close>

text \<open>
  The development embeds the deterministic part of
  \<^verbatim>\<open>src/backend/local_llm_malaysian_assistant.py\<close>: the constant tables, the three
  formatter methods of \<^verbatim>\<open>LocalMalaysianAssistant\<close>, and the prompt assembly and the
  generation wrapper of \<^verbatim>\<open>LocalLLM\<close>.

  \<^item> A Python \<^verbatim>\<open>str\<close> is a \<open>string\<close>. Characters outside ASCII (the emoji of the
    report templates) are written as their UTF-8 bytes. \<^verbatim>\<open>lower\<close>, \<^verbatim>\<open>title\<close> and
    \<^verbatim>\<open>strip\<close> act on the ASCII range, as Python does there, and leave other bytes alone.
  \<^item> A Python \<^verbatim>\<open>int\<close> is an \<open>int\<close>.
  \<^item> A Python \<^verbatim>\<open>float\<close> is the rational number it denotes: \<open>rat\<close>. Arithmetic is
    exact; rounding to binary64, infinities and NaN are outside the model.
  \<^item> An f-string is the list of its segments (\<open>piece\<close>): the literal text and every
    interpolated value together with its format specification.
  \<^item> A raised exception is a value \<open>Inl e\<close> of a sum type.
\<close>

subsection \<open>Strings\<close>

definition ascii_uppercase :: string where
  "ascii_uppercase = ''ABCDEFGHIJKLMNOPQRSTUVWXYZ''"

definition ascii_lowercase :: string where
  "ascii_lowercase = ''abcdefghijklmnopqrstuvwxyz''"

definition lower_char :: "char \<Rightarrow> char" where
  "lower_char c = (case map_of (zip ascii_uppercase ascii_lowercase) c of Some d \<Rightarrow> d | None \<Rightarrow> c)"

definition upper_char :: "char \<Rightarrow> char" where
  "upper_char c = (case map_of (zip ascii_lowercase ascii_uppercase) c of Some d \<Rightarrow> d | None \<Rightarrow> c)"

text \<open>\<^verbatim>\<open>s.lower()\<close>\<close>

definition lower :: "string \<Rightarrow> string" where
  "lower s = map lower_char s"

text \<open>\<^verbatim>\<open>s.replace(old, new)\<close> for one-character \<^verbatim>\<open>old\<close> and \<^verbatim>\<open>new\<close>.\<close>

definition replace_char :: "char \<Rightarrow> char \<Rightarrow> string \<Rightarrow> string" where
  "replace_char old new s = map (\<lambda>c. if c = old then new else c) s"

text \<open>
  \<^verbatim>\<open>s.title()\<close>: the first cased character of every run of cased characters is made upper
  case, the others lower case. The flag is CPython's \<^verbatim>\<open>previous_is_cased\<close>.
\<close>

fun title_from :: "bool \<Rightarrow> string \<Rightarrow> string" where
  "title_from previous_is_cased [] = []"
| "title_from previous_is_cased (c # cs) =
     (if c \<in> set ascii_lowercase then
        (if previous_is_cased then c else upper_char c) # title_from True cs
      else if c \<in> set ascii_uppercase then
        (if previous_is_cased then lower_char c else c) # title_from True cs
      else c # title_from False cs)"

definition title :: "string \<Rightarrow> string" where
  "title s = title_from False s"

text \<open>\<^verbatim>\<open>c.isspace()\<close> on the ASCII range, and \<^verbatim>\<open>s.strip()\<close>.\<close>

definition is_space :: "char \<Rightarrow> bool" where
  "is_space c = (c \<in> set [CHR 0x09, CHR 0x0A, CHR 0x0B, CHR 0x0C, CHR 0x0D,
                             CHR 0x1C, CHR 0x1D, CHR 0x1E, CHR 0x1F, CHR 0x20])"

definition strip :: "string \<Rightarrow> string" where
  "strip s = rev (dropWhile is_space (rev (dropWhile is_space s)))"

text \<open>
  \<^verbatim>\<open>a in b\<close> on two strings holds when \<open>a\<close> occurs in \<open>b\<close> as a contiguous block.
\<close>

definition str_in :: "string \<Rightarrow> string \<Rightarrow> bool" where
  "str_in a b = sublist a b"

subsection \<open>Numbers as text\<close>

definition digit_char :: "nat \<Rightarrow> char" where
  "digit_char d = ''0123456789'' ! (d mod 10)"

function show_nat :: "nat \<Rightarrow> string" where
  "show_nat n = (if n < 10 then [digit_char n] else show_nat (n div 10) @ [digit_char (n mod 10)])"
  by pat_completeness auto
termination
  by (relation "measure id") auto

declare show_nat.simps [simp del]

text \<open>\<^verbatim>\<open>str(i)\<close> of an \<^verbatim>\<open>int\<close>.\<close>

definition show_int :: "int \<Rightarrow> string" where
  "show_int i = (if i < 0 then ''-'' @ show_nat (nat (- i)) else show_nat (nat i))"

text \<open>Rounding to the nearest integer, a tie going to the even neighbour.\<close>

definition round_half_even :: "rat \<Rightarrow> int" where
  "round_half_even x =
     (let f = \<lfloor>x\<rfloor>; d = x - of_int f
      in if d < 1 / 2 then f else if 1 / 2 < d then f + 1 else if even f then f else f + 1)"

text \<open>The thousands separator of the \<^verbatim>\<open>,\<close> format option, on a row of digits.\<close>

fun group3_rev :: "string \<Rightarrow> string" where
  "group3_rev (a # b # c # d # ds) = a # b # c # CHR '','' # group3_rev (d # ds)"
| "group3_rev ds = ds"

definition group3 :: "string \<Rightarrow> string" where
  "group3 ds = rev (group3_rev (rev ds))"

definition zero_pad :: "nat \<Rightarrow> string \<Rightarrow> string" where
  "zero_pad w ds = replicate (w - length ds) CHR ''0'' @ ds"

text \<open>
  \<^verbatim>\<open>format(x, ",.<prec>f")\<close> (with \<open>comma\<close>) and \<^verbatim>\<open>format(x, ".<prec>f")\<close> (without):
  the value is rounded to \<open>prec\<close> decimals, ties to even, and the sign of a negative value is
  kept even when the digits round to zero.
\<close>

definition format_f :: "bool \<Rightarrow> nat \<Rightarrow> rat \<Rightarrow> string" where
  "format_f comma prec x =
     (let n = nat (round_half_even (\<bar>x\<bar> * 10 ^ prec));
          ip = show_nat (n div 10 ^ prec);
          fp = zero_pad prec (show_nat (n mod 10 ^ prec))
      in (if x < 0 then ''-'' else '''')
         @ (if comma then group3 ip else ip)
         @ (if prec = 0 then '''' else ''.'' @ fp))"

subsection \<open>Formatted strings\<close>

datatype piece =
    Lit string     \<comment> \<open>literal text of the f-string\<close>
  | StrV string    \<comment> \<open>\<^verbatim>\<open>{s}\<close> of a string\<close>
  | IntV int       \<comment> \<open>\<^verbatim>\<open>{i}\<close> of an integer\<close>
  | FloatV rat     \<comment> \<open>\<^verbatim>\<open>{x}\<close> of a float\<close>
  | Fixed2 rat     \<comment> \<open>\<^verbatim>\<open>{x:,.2f}\<close>\<close>
  | Fixed1 rat     \<comment> \<open>\<^verbatim>\<open>{x:.1f}\<close>\<close>

text \<open>
  The text of an f-string. \<open>str_float\<close> stands for Python's \<^verbatim>\<open>str\<close> on a float (the
  shortest decimal that reads back as the same binary64 value), which is not a function of
  the rational value alone and is therefore a parameter.
\<close>

fun render_piece :: "(rat \<Rightarrow> string) \<Rightarrow> piece \<Rightarrow> string" where
  "render_piece str_float (Lit s) = s"
| "render_piece str_float (StrV s) = s"
| "render_piece str_float (IntV i) = show_int i"
| "render_piece str_float (FloatV x) = str_float x"
| "render_piece str_float (Fixed2 x) = format_f True 2 x"
| "render_piece str_float (Fixed1 x) = format_f False 1 x"

definition render :: "(rat \<Rightarrow> string) \<Rightarrow> piece list \<Rightarrow> string" where
  "render str_float ps = concat (map (render_piece str_float) ps)"

text \<open>The emoji of the templates, as UTF-8.\<close>

definition CHECK_MARK :: string where      \<comment> \<open>U+2705\<close>
  "CHECK_MARK = [CHR 0xE2, CHR 0x9C, CHR 0x85]"

definition WARNING_SIGN :: string where    \<comment> \<open>U+26A0 U+FE0F\<close>
  "WARNING_SIGN = [CHR 0xE2, CHR 0x9A, CHR 0xA0, CHR 0xEF, CHR 0xB8, CHR 0x8F]"

definition CROSS_MARK :: string where      \<comment> \<open>U+274C\<close>
  "CROSS_MARK = [CHR 0xE2, CHR 0x9D, CHR 0x8C]"



definition CITYSCAPE :: string where       \<comment> \<open>U+1F3D9 U+FE0F\<close>
  "CITYSCAPE = [CHR 0xF0, CHR 0x9F, CHR 0x8F, CHR 0x99, CHR 0xEF, CHR 0xB8, CHR 0x8F]"

definition LIGHT_BULB :: string where      \<comment> \<open>U+1F4A1\<close>
  "LIGHT_BULB = [CHR 0xF0, CHR 0x9F, CHR 0x92, CHR 0xA1]"

section \<open>Knowledge tables\<close>

text \<open>\<^verbatim>\<open>class MalaysianEmploymentLaw\<close>\<close>

definition MAX_HOURS_PER_DAY :: int where "MAX_HOURS_PER_DAY = 8"
definition MAX_HOURS_PER_WEEK :: int where "MAX_HOURS_PER_WEEK = 48"
definition MAX_OVERTIME_PER_MONTH :: int where "MAX_OVERTIME_PER_MONTH = 104"
definition MINIMUM_WAGE_MYR :: int where "MINIMUM_WAGE_MYR = 1500"

section \<open>Formatter functions\<close>

subsection \<open>\<^verbatim>\<open>check_working_hours\<close>\<close>

definition check_working_hours :: "rat \<Rightarrow> piece list" where
  "check_working_hours hours_per_week =
     (if hours_per_week \<le> of_int MAX_HOURS_PER_WEEK then
        [Lit (CHECK_MARK @ '' Your working hours (''), FloatV hours_per_week,
         Lit '' hrs/week) comply with Malaysian Employment Act (max '',
         IntV MAX_HOURS_PER_WEEK, Lit '' hrs/week).'']
      else
        (let overtime = hours_per_week - of_int MAX_HOURS_PER_WEEK
         in [Lit (WARNING_SIGN @ '' Your working hours (''), FloatV hours_per_week,
             Lit '' hrs/week) EXCEED the legal limit of '', IntV MAX_HOURS_PER_WEEK,
             Lit '' hrs/week.\<newline>\<newline>Overtime: '', FloatV overtime,
             Lit '' hours/week\<newline>Legal rights:\<newline>- Overtime must be paid at 1.5x your hourly rate\<newline>- Maximum overtime: '',
             IntV MAX_OVERTIME_PER_MONTH,
             Lit '' hours/month\<newline>- You have the right to refuse excessive overtime\<newline>\<newline>Recommendation: Discuss with your employer about compliance with Employment Act 1955.'']))"


subsection \<open>\<^verbatim>\<open>calculate_salary_breakdown\<close>\<close>




subsection \<open>Exceptions and dictionaries\<close>

text \<open>
  The exceptions that occur are instances of Python's \<^verbatim>\<open>Exception\<close> class: the three
  built-in ones the arithmetic and the subscripts can raise, and \<open>Exception msg\<close> for
  whatever the generation engine raises on a failure, \<open>msg\<close> being its \<^verbatim>\<open>str\<close>.
\<close>

datatype py_exception =
    KeyError string
  | IndexError
  | ZeroDivisionError
  | Exception string

text \<open>
  \<^verbatim>\<open>str(e)\<close>. The text of a \<^verbatim>\<open>KeyError\<close> is the \<^verbatim>\<open>repr\<close> of the key, which for the
  keys of this program is the key between single quotes.
\<close>

fun str_exception :: "py_exception \<Rightarrow> string" where
  "str_exception (KeyError k) = [CHR 0x27] @ k @ [CHR 0x27]"
| "str_exception IndexError = ''list index out of range''"
| "str_exception ZeroDivisionError = ''float division by zero''"
| "str_exception (Exception msg) = msg"

text \<open>Sequencing: the first exception raised ends the evaluation.\<close>

definition and_then :: "py_exception + 'a \<Rightarrow> ('a \<Rightarrow> py_exception + 'b) \<Rightarrow> py_exception + 'b" where
  "and_then m f = (case m of Inl e \<Rightarrow> Inl e | Inr v \<Rightarrow> f v)"

fun sequence :: "(py_exception + 'a) list \<Rightarrow> py_exception + 'a list" where
  "sequence [] = Inr []"
| "sequence (m # ms) = and_then m (\<lambda>v. and_then (sequence ms) (\<lambda>vs. Inr (v # vs)))"

text \<open>\<^verbatim>\<open>try: body except Exception as e: handler(e)\<close>\<close>

definition try_except :: "py_exception + 'a \<Rightarrow> (py_exception \<Rightarrow> py_exception + 'a) \<Rightarrow> py_exception + 'a" where
  "try_except body handler = (case body of Inl e \<Rightarrow> handler e | Inr v \<Rightarrow> Inr v)"

text \<open>
  A dictionary with string keys, in insertion order: \<^verbatim>\<open>k in d\<close>, \<^verbatim>\<open>d[k]\<close>,
  \<^verbatim>\<open>d.values()\<close>; and \<^verbatim>\<open>xs[i]\<close> on a list.
\<close>

type_synonym 'v dict = "(string \<times> 'v) list"

definition contains_key :: "'v dict \<Rightarrow> string \<Rightarrow> bool" where
  "contains_key d k = (k \<in> set (map fst d))"

definition getitem :: "'v dict \<Rightarrow> string \<Rightarrow> py_exception + 'v" where
  "getitem d k = (case map_of d k of None \<Rightarrow> Inl (KeyError k) | Some v \<Rightarrow> Inr v)"

definition dict_values :: "'v dict \<Rightarrow> 'v list" where
  "dict_values d = map snd d"

definition list_index :: "'a list \<Rightarrow> nat \<Rightarrow> py_exception + 'a" where
  "list_index xs i = (if i < length xs then Inr (xs ! i) else Inl IndexError)"

text \<open>\<^verbatim>\<open>a / b\<close>\<close>

definition truediv :: "rat \<Rightarrow> rat \<Rightarrow> py_exception + rat" where
  "truediv a b = (if b = 0 then Inl ZeroDivisionError else Inr (a / b))"

subsection \<open>\<^verbatim>\<open>class MalaysianLivingExpenses\<close>\<close>

text \<open>The three inner dictionaries of \<^verbatim>\<open>EXPENSES\<close>, named after their keys.\<close>

definition KUALA_LUMPUR :: "int dict dict" where
  "KUALA_LUMPUR =
     [(''rent_1br'', [(''min'', 1200), (''max'', 2500)]),
      (''utilities'', [(''min'', 150), (''max'', 300)]),
      (''food'', [(''min'', 600), (''max'', 1200)]),
      (''transport'', [(''min'', 200), (''max'', 500)]),
      (''healthcare'', [(''min'', 100), (''max'', 300)]),
      (''entertainment'', [(''min'', 200), (''max'', 500)])]"

definition PENANG :: "int dict dict" where
  "PENANG =
     [(''rent_1br'', [(''min'', 800), (''max'', 1800)]),
      (''utilities'', [(''min'', 120), (''max'', 250)]),
      (''food'', [(''min'', 500), (''max'', 1000)]),
      (''transport'', [(''min'', 150), (''max'', 400)]),
      (''healthcare'', [(''min'', 80), (''max'', 250)]),
      (''entertainment'', [(''min'', 150), (''max'', 400)])]"

definition JOHOR_BAHRU :: "int dict dict" where
  "JOHOR_BAHRU =
     [(''rent_1br'', [(''min'', 700), (''max'', 1500)]),
      (''utilities'', [(''min'', 120), (''max'', 250)]),
      (''food'', [(''min'', 450), (''max'', 900)]),
      (''transport'', [(''min'', 150), (''max'', 350)]),
      (''healthcare'', [(''min'', 80), (''max'', 250)]),
      (''entertainment'', [(''min'', 150), (''max'', 350)])]"

definition EXPENSES :: "int dict dict dict" where
  "EXPENSES =
     [(''kuala_lumpur'', KUALA_LUMPUR), (''penang'', PENANG), (''johor_bahru'', JOHOR_BAHRU)]"

subsection \<open>\<^verbatim>\<open>calculate_expense_budget\<close>\<close>

text \<open>\<^verbatim>\<open>sum(cat[k] for cat in cats)\<close>, the running total going from left to right.\<close>

fun sum_of_key :: "int \<Rightarrow> string \<Rightarrow> int dict list \<Rightarrow> py_exception + int" where
  "sum_of_key acc k [] = Inr acc"
| "sum_of_key acc k (cat # cats) = and_then (getitem cat k) (\<lambda>v. sum_of_key (acc + v) k cats)"

text \<open>\<^verbatim>\<open>{expenses[category][bound]}\<close>\<close>

definition range_field :: "int dict dict \<Rightarrow> string \<Rightarrow> string \<Rightarrow> py_exception + piece" where
  "range_field expenses category bound =
     and_then (getitem expenses category) (\<lambda>cat.
     and_then (getitem cat bound) (\<lambda>v. Inr (IntV v)))"

text \<open>The \<^verbatim>\<open>return\<close> statement of the method: the f-string over its local variables.\<close>

definition budget_fstring ::
  "string \<Rightarrow> int dict dict \<Rightarrow> int \<Rightarrow> int \<Rightarrow> rat \<Rightarrow> rat \<Rightarrow> rat \<Rightarrow> rat
     \<Rightarrow> py_exception + piece list" where
  "budget_fstring city expenses total_min total_max total_avg salary savings savings_rate =
     sequence
       [Inr (Lit (CITYSCAPE @ '' Living Expenses Budget for '')), Inr (StrV (title city)),
        Inr (Lit ''\<newline>\<newline>Monthly Expenses (RM):\<newline>- Rent (1BR): ''),
        range_field expenses ''rent_1br'' ''min'', Inr (Lit '' - ''),
        range_field expenses ''rent_1br'' ''max'',
        Inr (Lit ''\<newline>- Utilities: ''),
        range_field expenses ''utilities'' ''min'', Inr (Lit '' - ''),
        range_field expenses ''utilities'' ''max'',
        Inr (Lit ''\<newline>- Food: ''),
        range_field expenses ''food'' ''min'', Inr (Lit '' - ''),
        range_field expenses ''food'' ''max'',
        Inr (Lit ''\<newline>- Transport: ''),
        range_field expenses ''transport'' ''min'', Inr (Lit '' - ''),
        range_field expenses ''transport'' ''max'',
        Inr (Lit ''\<newline>- Healthcare: ''),
        range_field expenses ''healthcare'' ''min'', Inr (Lit '' - ''),
        range_field expenses ''healthcare'' ''max'',
        Inr (Lit ''\<newline>- Entertainment: ''),
        range_field expenses ''entertainment'' ''min'', Inr (Lit '' - ''),
        range_field expenses ''entertainment'' ''max'',
        Inr (Lit ''\<newline>\<newline>Total Range: RM ''), Inr (Fixed2 (of_int total_min)),
        Inr (Lit '' - RM ''), Inr (Fixed2 (of_int total_max)),
        Inr (Lit ''\<newline>Average: RM ''), Inr (Fixed2 total_avg),
        Inr (Lit ''\<newline>\<newline>Your Salary: RM ''), Inr (Fixed2 salary),
        Inr (Lit ''\<newline>Estimated Savings: RM ''), Inr (Fixed2 savings),
        Inr (Lit '' (''), Inr (Fixed1 savings_rate),
        Inr (Lit (''%)\<newline>\<newline>'' @ LIGHT_BULB @ '' Financial Health: '')),
        Inr (StrV (if savings_rate \<ge> 20 then CHECK_MARK @ '' Good''
                   else if savings_rate \<ge> 10 then WARNING_SIGN @ '' Consider budgeting''
                   else CROSS_MARK @ '' Tight budget''))]"

definition calculate_expense_budget :: "string \<Rightarrow> rat \<Rightarrow> py_exception + piece list" where
  "calculate_expense_budget city salary =
     (let city_key = replace_char CHR '' '' CHR ''_'' (lower city);
          city_key = (if \<not> contains_key EXPENSES city_key then ''kuala_lumpur'' else city_key)
      in and_then (getitem EXPENSES city_key) (\<lambda>expenses.
         and_then (sum_of_key 0 ''min'' (dict_values expenses)) (\<lambda>total_min.
         and_then (sum_of_key 0 ''max'' (dict_values expenses)) (\<lambda>total_max.
         let total_avg = of_int (total_min + total_max) / 2;
             savings = salary - total_avg
         in and_then (if salary > 0
                      then and_then (truediv savings salary) (\<lambda>q. Inr (q * 100))
                      else Inr 0) (\<lambda>savings_rate.
            budget_fstring city expenses total_min total_max total_avg
              salary savings savings_rate)))))"

text \<open>The values a report shows with one decimal (\<^verbatim>\<open>:.1f\<close>), in order.\<close>

fun fixed1_fields :: "piece list \<Rightarrow> rat list" where
  "fixed1_fields [] = []"
| "fixed1_fields (Fixed1 x # ps) = x # fixed1_fields ps"
| "fixed1_fields (p # ps) = fixed1_fields ps"

text \<open>The integers a report shows, and the values it shows with two decimals, in order.\<close>

fun int_fields :: "piece list \<Rightarrow> int list" where
  "int_fields [] = []"
| "int_fields (IntV i # ps) = i # int_fields ps"
| "int_fields (p # ps) = int_fields ps"

fun fixed2_fields :: "piece list \<Rightarrow> rat list" where
  "fixed2_fields [] = []"
| "fixed2_fields (Fixed2 x # ps) = x # fixed2_fields ps"
| "fixed2_fields (p # ps) = fixed2_fields ps"

section \<open>Prompt builder and generation adapter\<close>

subsection \<open>\<^verbatim>\<open>LocalLLM.chat\<close>: the prompt\<close>

text \<open>
  \<^verbatim>\<open>system_prompt\<close> is an optional string. \<^verbatim>\<open>if system_prompt:\<close> takes the first branch
  when it is a non-empty string, and the second when it is \<^verbatim>\<open>None\<close> or empty.
\<close>

definition if_truthy :: "string option \<Rightarrow> (string \<Rightarrow> 'a) \<Rightarrow> 'a \<Rightarrow> 'a" where
  "if_truthy system_prompt yes no =
     (case system_prompt of None \<Rightarrow> no | Some s \<Rightarrow> if s = [] then no else yes s)"

datatype family = Llama3 | Phi3 | Mistral | Gemma | Generic

text \<open>The bodies of the five branches of \<^verbatim>\<open>chat\<close>, one equation for each.\<close>

fun template :: "family \<Rightarrow> string \<Rightarrow> string option \<Rightarrow> string" where
  "template Llama3 message system_prompt =
     ''<|begin_of_text|><|start_header_id|>system<|end_header_id|>\<newline>\<newline>''
     @ if_truthy system_prompt (\<lambda>s. s @ ''<|eot_id|>'') []
     @ ''<|start_header_id|>user<|end_header_id|>\<newline>\<newline>'' @ message @ ''<|eot_id|>''
     @ ''<|start_header_id|>assistant<|end_header_id|>\<newline>\<newline>''"
| "template Phi3 message system_prompt =
     ''<|system|>\<newline>''
     @ if_truthy system_prompt (\<lambda>s. s @ ''\<newline>'') []
     @ ''<|end|>\<newline><|user|>\<newline>'' @ message @ ''<|end|>\<newline><|assistant|>\<newline>''"
| "template Mistral message system_prompt =
     ''<s>''
     @ if_truthy system_prompt
         (\<lambda>s. ''[INST] '' @ s @ ''\<newline>\<newline>'' @ message @ '' [/INST]'')
         (''[INST] '' @ message @ '' [/INST]'')"
| "template Gemma message system_prompt =
     ''<start_of_turn>user\<newline>''
     @ if_truthy system_prompt (\<lambda>s. s @ ''\<newline>\<newline>'') []
     @ message @ ''<end_of_turn>\<newline><start_of_turn>model\<newline>''"
| "template Generic message system_prompt =
     if_truthy system_prompt
       (\<lambda>s. ''System: '' @ s @ ''\<newline>\<newline>User: '' @ message @ ''\<newline>\<newline>Assistant:'')
       (''User: '' @ message @ ''\<newline>\<newline>Assistant:'')"

text \<open>The \<^verbatim>\<open>if\<close>/\<^verbatim>\<open>elif\<close> chain of \<^verbatim>\<open>chat\<close> on \<^verbatim>\<open>self.model_name\<close>.\<close>

definition build_prompt :: "string \<Rightarrow> string \<Rightarrow> string option \<Rightarrow> string" where
  "build_prompt model_name message system_prompt =
     (if str_in ''llama-3'' (lower model_name) \<or> str_in ''llama3'' (lower model_name) then
        template Llama3 message system_prompt
      else if str_in ''phi-3'' (lower model_name) then
        template Phi3 message system_prompt
      else if str_in ''mistral'' (lower model_name) then
        template Mistral message system_prompt
      else if str_in ''gemma'' (lower model_name) then
        template Gemma message system_prompt
      else
        template Generic message system_prompt)"

subsection \<open>\<^verbatim>\<open>LocalLLM.generate\<close>\<close>

text \<open>
  The text-generation pipeline is third-party code. It is a parameter: a function from the
  prompt and the keyword arguments of the call to the list of results (each a dictionary)
  or to the exception it raises.
\<close>

record gen_kwargs =
  max_new_tokens :: int
  do_sample :: bool
  temperature :: rat
  top_p :: rat
  return_full_text :: bool

type_synonym pipeline = "string \<Rightarrow> gen_kwargs \<Rightarrow> py_exception + string dict list"

definition generate :: "pipeline \<Rightarrow> string \<Rightarrow> int \<Rightarrow> py_exception + string" where
  "generate pipe prompt max_tokens =
     try_except
       (and_then (pipe prompt \<lparr>max_new_tokens = max_tokens, do_sample = True,
                               temperature = 0.7, top_p = 0.95, return_full_text = False\<rparr>)
          (\<lambda>result.
        and_then (list_index result 0) (\<lambda>first.
        and_then (getitem first ''generated_text'') (\<lambda>generated_text.
        Inr (strip generated_text)))))
       (\<lambda>e. Inr (''Error generating response: '' @ str_exception e))"

definition chat :: "pipeline \<Rightarrow> string \<Rightarrow> string \<Rightarrow> string option \<Rightarrow> py_exception + string" where
  "chat pipe model_name message system_prompt =
     generate pipe (build_prompt model_name message system_prompt) 1024"

subsection \<open>The dispatch as the specification words it\<close>

text \<open>
  An ordered list of family patterns, matched as substrings of the lower-cased identifier;
  the first family with a matching pattern is taken, and \<open>Generic\<close> when none matches.
\<close>

definition spec_family_patterns :: "(string list \<times> family) list" where
  "spec_family_patterns =
     [([''llama-3'', ''llama3''], Llama3), ([''phi-3''], Phi3),
      ([''mistral''], Mistral), ([''gemma''], Gemma)]"

definition spec_dispatch :: "string \<Rightarrow> family" where
  "spec_dispatch model_name =
     (case find (\<lambda>(patterns, f). list_ex (\<lambda>p. str_in p (lower model_name)) patterns)
                spec_family_patterns
      of Some (patterns, f) \<Rightarrow> f | None \<Rightarrow> Generic)"

section \<open>Evaluation lemmas\<close>

lemma show_int_48: "show_int MAX_HOURS_PER_WEEK = ''48''"
  by (simp add: MAX_HOURS_PER_WEEK_def show_int_def show_nat.simps digit_char_def)

section \<open>Working hours\<close>

text \<open>
  C1. For every weekly hours value \<open>h\<close>: if \<open>h \<le> 48\<close> the report is the sentence that the
  hours comply with the Employment Act's maximum of 48 hours a week (so \<open>h = 48\<close> itself
  complies); if \<open>h > 48\<close> the report opens by saying that the hours exceed the legal limit
  of 48 and gives the overtime as \<open>h - 48\<close>.
\<close>

theorem check_working_hours_compliance:
  "(h \<le> 48 \<longrightarrow>
      render str_float (check_working_hours h) =
        CHECK_MARK @ '' Your working hours ('' @ str_float h
          @ '' hrs/week) comply with Malaysian Employment Act (max 48 hrs/week).'')
   \<and> (48 < h \<longrightarrow>
      prefix (WARNING_SIGN @ '' Your working hours ('' @ str_float h
                @ '' hrs/week) EXCEED the legal limit of 48 hrs/week.\<newline>\<newline>Overtime: ''
                @ str_float (h - 48) @ '' hours/week\<newline>'')
             (render str_float (check_working_hours h))
      \<and> FloatV (h - 48) \<in> set (check_working_hours h))"
proof (intro conjI impI)
  assume "h \<le> 48"
  then show "render str_float (check_working_hours h) =
        CHECK_MARK @ '' Your working hours ('' @ str_float h
          @ '' hrs/week) comply with Malaysian Employment Act (max 48 hrs/week).''"
    by (simp add: check_working_hours_def render_def show_int_48)
      (simp add: MAX_HOURS_PER_WEEK_def)
next
  assume over: "48 < h"
  then have branch: "\<not> h \<le> of_int MAX_HOURS_PER_WEEK"
    by (simp add: MAX_HOURS_PER_WEEK_def)
  show "prefix (WARNING_SIGN @ '' Your working hours ('' @ str_float h
                @ '' hrs/week) EXCEED the legal limit of 48 hrs/week.\<newline>\<newline>Overtime: ''
                @ str_float (h - 48) @ '' hours/week\<newline>'')
             (render str_float (check_working_hours h))"
    using branch
    by (simp add: check_working_hours_def render_def show_int_48 Let_def)
      (simp add: MAX_HOURS_PER_WEEK_def)
  show "FloatV (h - 48) \<in> set (check_working_hours h)"
    using branch by (simp add: check_working_hours_def Let_def) (simp add: MAX_HOURS_PER_WEEK_def)
qed

theorem check_working_hours_compliance_witness:
  "(48::rat) \<le> 48
   \<and> render (format_f False 1) (check_working_hours 48) =
        CHECK_MARK @ '' Your working hours ('' @ format_f False 1 48
          @ '' hrs/week) comply with Malaysian Employment Act (max 48 hrs/week).''
   \<and> (48::rat) < 50
   \<and> prefix (WARNING_SIGN @ '' Your working hours ('' @ format_f False 1 50
                @ '' hrs/week) EXCEED the legal limit of 48 hrs/week.\<newline>\<newline>Overtime: ''
                @ format_f False 1 (50 - 48) @ '' hours/week\<newline>'')
             (render (format_f False 1) (check_working_hours 50))
   \<and> FloatV (50 - 48) \<in> set (check_working_hours 50)"
  using check_working_hours_compliance [of 48 "format_f False 1"]
        check_working_hours_compliance [of 50 "format_f False 1"]
  by simp

section \<open>Salary breakdown\<close>

lemmas format_eval =
  format_f_def round_half_even_def Let_def show_nat.simps digit_char_def group3_def zero_pad_def










section \<open>Expense budget\<close>

lemma getitem_EXPENSES:
  "getitem EXPENSES ''kuala_lumpur'' = Inr KUALA_LUMPUR"
  "getitem EXPENSES ''penang'' = Inr PENANG"
  "getitem EXPENSES ''johor_bahru'' = Inr JOHOR_BAHRU"
  by (simp_all add: getitem_def EXPENSES_def)

lemma contains_key_EXPENSES:
  "contains_key EXPENSES k \<longleftrightarrow> k = ''kuala_lumpur'' \<or> k = ''penang'' \<or> k = ''johor_bahru''"
  by (auto simp add: contains_key_def EXPENSES_def)

lemma savings_rate_never_raises:
  "(if (0::rat) < salary then and_then (truediv savings salary) (\<lambda>q. Inr (q * 100)) else Inr 0)
     = Inr (if 0 < salary then savings / salary * 100 else 0)"
  by (simp add: truediv_def and_then_def)

lemma table_totals:
  "sum_of_key 0 ''min'' (dict_values KUALA_LUMPUR) = Inr 2450"
  "sum_of_key 0 ''max'' (dict_values KUALA_LUMPUR) = Inr 5300"
  "sum_of_key 0 ''min'' (dict_values PENANG) = Inr 1800"
  "sum_of_key 0 ''max'' (dict_values PENANG) = Inr 4100"
  "sum_of_key 0 ''min'' (dict_values JOHOR_BAHRU) = Inr 1650"
  "sum_of_key 0 ''max'' (dict_values JOHOR_BAHRU) = Inr 3600"
  by (simp_all add: KUALA_LUMPUR_def PENANG_def JOHOR_BAHRU_def dict_values_def getitem_def
      and_then_def)

lemma budget_fallback:
  assumes "\<not> contains_key EXPENSES (replace_char CHR '' '' CHR ''_'' (lower city))"
  shows "calculate_expense_budget city salary =
           budget_fstring city KUALA_LUMPUR 2450 5300 3875 salary (salary - 3875)
             (if 0 < salary then (salary - 3875) / salary * 100 else 0)"
  using assms
  by (simp add: calculate_expense_budget_def Let_def getitem_EXPENSES savings_rate_never_raises
      table_totals and_then_def)

lemma budget_recognised:
  assumes "replace_char CHR '' '' CHR ''_'' (lower city) = k"
  shows "k = ''kuala_lumpur'' \<Longrightarrow> calculate_expense_budget city salary =
           budget_fstring city KUALA_LUMPUR 2450 5300 3875 salary (salary - 3875)
             (if 0 < salary then (salary - 3875) / salary * 100 else 0)"
    and "k = ''penang'' \<Longrightarrow> calculate_expense_budget city salary =
           budget_fstring city PENANG 1800 4100 2950 salary (salary - 2950)
             (if 0 < salary then (salary - 2950) / salary * 100 else 0)"
    and "k = ''johor_bahru'' \<Longrightarrow> calculate_expense_budget city salary =
           budget_fstring city JOHOR_BAHRU 1650 3600 2625 salary (salary - 2625)
             (if 0 < salary then (salary - 2625) / salary * 100 else 0)"
  using assms
  by (simp_all add: calculate_expense_budget_def Let_def contains_key_EXPENSES
       getitem_EXPENSES savings_rate_never_raises table_totals and_then_def)

lemma budget_fstring_table:
  "budget_fstring city
     [(''rent_1br'', [(''min'', a1), (''max'', b1)]),
      (''utilities'', [(''min'', a2), (''max'', b2)]),
      (''food'', [(''min'', a3), (''max'', b3)]),
      (''transport'', [(''min'', a4), (''max'', b4)]),
      (''healthcare'', [(''min'', a5), (''max'', b5)]),
      (''entertainment'', [(''min'', a6), (''max'', b6)])]
     total_min total_max total_avg salary savings savings_rate =
   Inr [Lit (CITYSCAPE @ '' Living Expenses Budget for ''), StrV (title city),
        Lit ''\<newline>\<newline>Monthly Expenses (RM):\<newline>- Rent (1BR): '', IntV a1, Lit '' - '', IntV b1,
        Lit ''\<newline>- Utilities: '', IntV a2, Lit '' - '', IntV b2,
        Lit ''\<newline>- Food: '', IntV a3, Lit '' - '', IntV b3,
        Lit ''\<newline>- Transport: '', IntV a4, Lit '' - '', IntV b4,
        Lit ''\<newline>- Healthcare: '', IntV a5, Lit '' - '', IntV b5,
        Lit ''\<newline>- Entertainment: '', IntV a6, Lit '' - '', IntV b6,
        Lit ''\<newline>\<newline>Total Range: RM '', Fixed2 (of_int total_min),
        Lit '' - RM '', Fixed2 (of_int total_max),
        Lit ''\<newline>Average: RM '', Fixed2 total_avg,
        Lit ''\<newline>\<newline>Your Salary: RM '', Fixed2 salary,
        Lit ''\<newline>Estimated Savings: RM '', Fixed2 savings,
        Lit '' ('', Fixed1 savings_rate,
        Lit (''%)\<newline>\<newline>'' @ LIGHT_BULB @ '' Financial Health: ''),
        StrV (if savings_rate \<ge> 20 then CHECK_MARK @ '' Good''
              else if savings_rate \<ge> 10 then WARNING_SIGN @ '' Consider budgeting''
              else CROSS_MARK @ '' Tight budget'')]"
  by (simp add: budget_fstring_def range_field_def getitem_def and_then_def)

lemma budget_fstring_built:
  assumes "e = KUALA_LUMPUR \<or> e = PENANG \<or> e = JOHOR_BAHRU"
  shows "\<exists>r. budget_fstring city e total_min total_max total_avg salary savings savings_rate = Inr r"
  using assms
  by (auto simp add: KUALA_LUMPUR_def PENANG_def JOHOR_BAHRU_def budget_fstring_table)

text \<open>
  Whatever the table, a report of \<^verbatim>\<open>budget_fstring\<close> that was built shows one value with
  one decimal, the savings rate, between \<open>(\<close> and \<open>%)\<close>.
\<close>

lemma render_sublist:
  assumes "sublist ps r"
  shows "sublist (render str_float ps) (render str_float r)"
proof -
  from assms obtain pre post where "r = pre @ ps @ post"
    by (auto simp add: sublist_def)
  then have "render str_float r =
      render str_float pre @ render str_float ps @ render str_float post"
    by (simp add: render_def)
  then show ?thesis
    by simp
qed

lemma format_rate_zero: "format_f False (Suc 0) 0 = ''0.0''"
  by (simp add: format_eval)

lemma budget_zero_salary_report:
  assumes "budget_fstring city e total_min total_max total_avg salary savings 0 = Inr r"
      and "e = KUALA_LUMPUR \<or> e = PENANG \<or> e = JOHOR_BAHRU"
  shows "fixed1_fields r = [0] \<and> sublist '' (0.0%)'' (render str_float r)"
proof -
  let ?w = "[Lit '' ('', Fixed1 0, Lit (''%)\<newline>\<newline>'' @ LIGHT_BULB @ '' Financial Health: '')]"
  have window: "sublist ?w r \<and> fixed1_fields r = [0]"
    using assms
    by (auto simp add: KUALA_LUMPUR_def PENANG_def JOHOR_BAHRU_def budget_fstring_table
        sublist_Cons_right)
  then have "sublist (render str_float ?w) (render str_float r)"
    by (simp add: render_sublist)
  moreover have "sublist '' (0.0%)'' (render str_float ?w)"
    by (simp add: render_def format_rate_zero sublist_Cons_right)
  ultimately have "sublist '' (0.0%)'' (render str_float r)"
    by (rule sublist_order.order.trans [rotated])
  with window show ?thesis
    by simp
qed

lemma budget_city_cases:
  obtains (kuala_lumpur) "replace_char CHR '' '' CHR ''_'' (lower city) = ''kuala_lumpur''"
  | (penang) "replace_char CHR '' '' CHR ''_'' (lower city) = ''penang''"
  | (johor_bahru) "replace_char CHR '' '' CHR ''_'' (lower city) = ''johor_bahru''"
  | (unrecognised) "\<not> contains_key EXPENSES (replace_char CHR '' '' CHR ''_'' (lower city))"
  using contains_key_EXPENSES by blast

text \<open>
  C4. For every city name, the expense budget for a salary of 0 is built without any
  exception (the division is not evaluated, so no division by zero), the savings rate in
  it is 0, and the text shows it as \<open>(0.0%)\<close>.
\<close>

theorem expense_budget_zero_salary:
  "\<exists>r. calculate_expense_budget city 0 = Inr r
       \<and> fixed1_fields r = [0]
       \<and> sublist '' (0.0%)'' (render str_float r)"
proof -
  obtain e total_min total_max total_avg savings
    where table: "e = KUALA_LUMPUR \<or> e = PENANG \<or> e = JOHOR_BAHRU"
      and eq: "calculate_expense_budget city 0 =
                 budget_fstring city e total_min total_max total_avg 0 savings 0"
  proof (cases rule: budget_city_cases [of city])
    case kuala_lumpur
    then show ?thesis
      using budget_recognised(1) [of city _ 0] that [of KUALA_LUMPUR] by simp
  next
    case penang
    then show ?thesis
      using budget_recognised(2) [of city _ 0] that [of PENANG] by simp
  next
    case johor_bahru
    then show ?thesis
      using budget_recognised(3) [of city _ 0] that [of JOHOR_BAHRU] by simp
  next
    case unrecognised
    then show ?thesis
      using budget_fallback [of city 0] that [of KUALA_LUMPUR] by simp
  qed
  from table obtain r
    where built: "budget_fstring city e total_min total_max total_avg 0 savings 0 = Inr r"
    using budget_fstring_built by blast
  then have "fixed1_fields r = [0] \<and> sublist '' (0.0%)'' (render str_float r)"
    using table by (rule budget_zero_salary_report)
  with eq built show ?thesis
    by simp
qed

lemma normalise_examples:
  "replace_char CHR '' '' CHR ''_'' (lower ''Atlantis'') = ''atlantis''"
  "replace_char CHR '' '' CHR ''_'' (lower ''Johor Bahru'') = ''johor_bahru''"
  "replace_char CHR '' '' CHR ''_'' (lower ''Kuala Lumpur'') = ''kuala_lumpur''"
  by (simp_all add: replace_char_def lower_def lower_char_def ascii_uppercase_def
      ascii_lowercase_def)


text \<open>
  C5. The city is turned into a lookup key by lower-casing it and replacing each space by
  an underscore. When the key is in the expense table, the ranges of the report are those
  of its entry. When it is not (as for \<open>Atlantis\<close>), the report is built from the Kuala
  Lumpur entry: its twelve range figures, its totals 2450 and 5300 and its average 3875.
\<close>

theorem expense_budget_city_lookup:
  "(contains_key EXPENSES (replace_char CHR '' '' CHR ''_'' (lower city)) \<longrightarrow>
      (\<exists>e r. getitem EXPENSES (replace_char CHR '' '' CHR ''_'' (lower city)) = Inr e
            \<and> calculate_expense_budget city salary = Inr r
            \<and> int_fields r = concat (map (map snd) (dict_values e))))
   \<and> (\<not> contains_key EXPENSES (replace_char CHR '' '' CHR ''_'' (lower city)) \<longrightarrow>
      calculate_expense_budget city salary =
        budget_fstring city KUALA_LUMPUR 2450 5300 3875 salary (salary - 3875)
          (if 0 < salary then (salary - 3875) / salary * 100 else 0)
      \<and> (\<exists>r. calculate_expense_budget city salary = Inr r
            \<and> int_fields r = [1200, 2500, 150, 300, 600, 1200, 200, 500, 100, 300, 200, 500]
            \<and> take 3 (fixed2_fields r) = [2450, 5300, 3875]))"
proof (intro conjI impI)
  assume "contains_key EXPENSES (replace_char CHR '' '' CHR ''_'' (lower city))"
  then consider
      (kuala_lumpur) "replace_char CHR '' '' CHR ''_'' (lower city) = ''kuala_lumpur''"
    | (penang) "replace_char CHR '' '' CHR ''_'' (lower city) = ''penang''"
    | (johor_bahru) "replace_char CHR '' '' CHR ''_'' (lower city) = ''johor_bahru''"
    using contains_key_EXPENSES by blast
  then show "\<exists>e r. getitem EXPENSES (replace_char CHR '' '' CHR ''_'' (lower city)) = Inr e
            \<and> calculate_expense_budget city salary = Inr r
            \<and> int_fields r = concat (map (map snd) (dict_values e))"
  proof cases
    case kuala_lumpur
    then show ?thesis
      using budget_recognised(1) [of city _ salary]
      by (simp add: getitem_EXPENSES) (simp add: KUALA_LUMPUR_def budget_fstring_table dict_values_def)
  next
    case penang
    then show ?thesis
      using budget_recognised(2) [of city _ salary]
      by (simp add: getitem_EXPENSES) (simp add: PENANG_def budget_fstring_table dict_values_def)
  next
    case johor_bahru
    then show ?thesis
      using budget_recognised(3) [of city _ salary]
      by (simp add: getitem_EXPENSES) (simp add: JOHOR_BAHRU_def budget_fstring_table dict_values_def)
  qed
next
  assume unrecognised: "\<not> contains_key EXPENSES (replace_char CHR '' '' CHR ''_'' (lower city))"
  then show fallback: "calculate_expense_budget city salary =
        budget_fstring city KUALA_LUMPUR 2450 5300 3875 salary (salary - 3875)
          (if 0 < salary then (salary - 3875) / salary * 100 else 0)"
    by (rule budget_fallback)
  show "\<exists>r. calculate_expense_budget city salary = Inr r
            \<and> int_fields r = [1200, 2500, 150, 300, 600, 1200, 200, 500, 100, 300, 200, 500]
            \<and> take 3 (fixed2_fields r) = [2450, 5300, 3875]"
    unfolding fallback by (simp add: KUALA_LUMPUR_def budget_fstring_table)
qed

theorem expense_budget_city_lookup_witness:
  "contains_key EXPENSES (replace_char CHR '' '' CHR ''_'' (lower ''Johor Bahru''))
   \<and> (\<exists>e r. getitem EXPENSES (replace_char CHR '' '' CHR ''_'' (lower ''Johor Bahru'')) = Inr e
           \<and> calculate_expense_budget ''Johor Bahru'' 5000 = Inr r
           \<and> int_fields r = concat (map (map snd) (dict_values e)))
   \<and> \<not> contains_key EXPENSES (replace_char CHR '' '' CHR ''_'' (lower ''Atlantis''))
   \<and> (\<exists>r. calculate_expense_budget ''Atlantis'' 5000 = Inr r
           \<and> int_fields r = [1200, 2500, 150, 300, 600, 1200, 200, 500, 100, 300, 200, 500]
           \<and> take 3 (fixed2_fields r) = [2450, 5300, 3875])"
proof -
  have recognised:
    "contains_key EXPENSES (replace_char CHR '' '' CHR ''_'' (lower ''Johor Bahru''))"
    by (simp add: normalise_examples contains_key_EXPENSES)
  have unrecognised:
    "\<not> contains_key EXPENSES (replace_char CHR '' '' CHR ''_'' (lower ''Atlantis''))"
    by (simp add: normalise_examples contains_key_EXPENSES)
  from recognised expense_budget_city_lookup [of "''Johor Bahru''" 5000]
  have johor: "\<exists>e r. getitem EXPENSES (replace_char CHR '' '' CHR ''_'' (lower ''Johor Bahru'')) = Inr e
           \<and> calculate_expense_budget ''Johor Bahru'' 5000 = Inr r
           \<and> int_fields r = concat (map (map snd) (dict_values e))"
    by blast
  from unrecognised expense_budget_city_lookup [of "''Atlantis''" 5000]
  have atlantis: "\<exists>r. calculate_expense_budget ''Atlantis'' 5000 = Inr r
           \<and> int_fields r = [1200, 2500, 150, 300, 600, 1200, 200, 500, 100, 300, 200, 500]
           \<and> take 3 (fixed2_fields r) = [2450, 5300, 3875]"
    by blast
  from recognised johor unrecognised atlantis show ?thesis
    by blast
qed



section \<open>Prompt builder\<close>

lemmas string_eval =
  str_in_def lower_def lower_char_def ascii_uppercase_def ascii_lowercase_def
  sublist_Cons_right

lemma build_prompt_refines_dispatch:
  "build_prompt model_name message system_prompt =
     template (spec_dispatch model_name) message system_prompt"
  by (simp add: build_prompt_def spec_dispatch_def spec_family_patterns_def)

lemma build_prompt_examples:
  "build_prompt ''meta-llama/Meta-Llama-3-8B-Instruct'' message system_prompt =
     template Llama3 message system_prompt"
  "build_prompt ''mistralai/Mistral-7B-Instruct-v0.3'' message system_prompt =
     template Mistral message system_prompt"
  "build_prompt ''TinyLlama/TinyLlama-1.1B-Chat-v1.0'' message system_prompt =
     template Generic message system_prompt"
  by (simp_all add: build_prompt_def string_eval)

lemma spec_dispatch_examples:
  "spec_dispatch ''TinyLlama/TinyLlama-1.1B-Chat-v1.0'' = Generic"
  "spec_dispatch ''Llama-3-Mistral-Gemma'' = Llama3"
  by (simp_all add: spec_dispatch_def spec_family_patterns_def string_eval)

text \<open>
  C6, as stated, fails where no system instruction is given: for the identifier
  \<open>TinyLlama/TinyLlama-1.1B-Chat-v1.0\<close>, which matches no family, the message \<open>hi\<close> and no
  system instruction (the default of \<^verbatim>\<open>chat\<close>), the prompt is \<open>User: hi\<close>, two newlines
  and \<open>Assistant:\<close>; it does not start with \<open>System: \<close>.
\<close>

theorem generic_prompt_without_system_counterexample:
  "spec_dispatch ''TinyLlama/TinyLlama-1.1B-Chat-v1.0'' = Generic
   \<and> build_prompt ''TinyLlama/TinyLlama-1.1B-Chat-v1.0'' ''hi'' None
       = ''User: hi\<newline>\<newline>Assistant:''
   \<and> \<not> prefix ''System: '' (build_prompt ''TinyLlama/TinyLlama-1.1B-Chat-v1.0'' ''hi'' None)"
  by (simp add: spec_dispatch_examples build_prompt_examples if_truthy_def)

text \<open>
  C6, amended. The prompt is the template of the first family, in the order
  \<open>llama-3\<close>/\<open>llama3\<close>, \<open>phi-3\<close>, \<open>mistral\<close>, \<open>gemma\<close>, one of whose patterns occurs in the
  lower-cased identifier, so identifiers that differ only in case get the same prompt.
  When no family matches, the prompt is \<open>System: s\<close>, \<open>User: m\<close>, \<open>Assistant:\<close> (separated
  by two newlines) if a non-empty system instruction \<open>s\<close> is given, and \<open>User: m\<close>,
  \<open>Assistant:\<close> if the system instruction is absent or empty.
\<close>

theorem build_prompt_dispatch:
  "build_prompt model_name message system_prompt =
     template (spec_dispatch model_name) message system_prompt
   \<and> (lower model_name = lower other_name \<longrightarrow>
        build_prompt model_name message system_prompt =
          build_prompt other_name message system_prompt)
   \<and> (spec_dispatch model_name = Generic \<and> system_prompt = Some s \<and> s \<noteq> [] \<longrightarrow>
        build_prompt model_name message system_prompt =
          ''System: '' @ s @ ''\<newline>\<newline>User: '' @ message @ ''\<newline>\<newline>Assistant:'')
   \<and> (spec_dispatch model_name = Generic \<and> (system_prompt = None \<or> system_prompt = Some [])
        \<longrightarrow> build_prompt model_name message system_prompt =
              ''User: '' @ message @ ''\<newline>\<newline>Assistant:'')"
proof (intro conjI impI)
  show "build_prompt model_name message system_prompt =
     template (spec_dispatch model_name) message system_prompt"
    by (rule build_prompt_refines_dispatch)
next
  assume "lower model_name = lower other_name"
  then show "build_prompt model_name message system_prompt =
          build_prompt other_name message system_prompt"
    by (simp add: build_prompt_def)
next
  assume "spec_dispatch model_name = Generic \<and> system_prompt = Some s \<and> s \<noteq> []"
  then show "build_prompt model_name message system_prompt =
          ''System: '' @ s @ ''\<newline>\<newline>User: '' @ message @ ''\<newline>\<newline>Assistant:''"
    by (simp add: build_prompt_refines_dispatch if_truthy_def)
next
  assume "spec_dispatch model_name = Generic \<and> (system_prompt = None \<or> system_prompt = Some [])"
  then show "build_prompt model_name message system_prompt =
              ''User: '' @ message @ ''\<newline>\<newline>Assistant:''"
    by (auto simp add: build_prompt_refines_dispatch if_truthy_def)
qed

theorem build_prompt_dispatch_witness:
  "lower ''MISTRAL-7B'' = lower ''mistral-7b''
   \<and> build_prompt ''MISTRAL-7B'' ''hi'' None = build_prompt ''mistral-7b'' ''hi'' None
   \<and> spec_dispatch ''TinyLlama/TinyLlama-1.1B-Chat-v1.0'' = Generic
   \<and> build_prompt ''TinyLlama/TinyLlama-1.1B-Chat-v1.0'' ''hi'' (Some ''Be brief.'')
       = ''System: Be brief.\<newline>\<newline>User: hi\<newline>\<newline>Assistant:''
   \<and> build_prompt ''TinyLlama/TinyLlama-1.1B-Chat-v1.0'' ''hi'' None
       = ''User: hi\<newline>\<newline>Assistant:''
   \<and> build_prompt ''Llama-3-Mistral-Gemma'' ''hi'' None = template Llama3 ''hi'' None"
proof -
  have same: "lower ''MISTRAL-7B'' = lower ''mistral-7b''"
    by (simp add: lower_def lower_char_def ascii_uppercase_def ascii_lowercase_def)
  have generic: "spec_dispatch ''TinyLlama/TinyLlama-1.1B-Chat-v1.0'' = Generic"
    by (rule spec_dispatch_examples)
  have given: "''Be brief.'' \<noteq> []"
    by simp
  from same
    build_prompt_dispatch [of "''MISTRAL-7B''" "''hi''" None "''mistral-7b''" "[]"]
  have a: "build_prompt ''MISTRAL-7B'' ''hi'' None = build_prompt ''mistral-7b'' ''hi'' None"
    by blast
  from generic given
    build_prompt_dispatch [of "''TinyLlama/TinyLlama-1.1B-Chat-v1.0''" "''hi''"
      "Some ''Be brief.''" "[]" "''Be brief.''"]
  have "build_prompt ''TinyLlama/TinyLlama-1.1B-Chat-v1.0'' ''hi'' (Some ''Be brief.'')
       = ''System: '' @ ''Be brief.'' @ ''\<newline>\<newline>User: '' @ ''hi'' @ ''\<newline>\<newline>Assistant:''"
    by blast
  then have b: "build_prompt ''TinyLlama/TinyLlama-1.1B-Chat-v1.0'' ''hi'' (Some ''Be brief.'')
       = ''System: Be brief.\<newline>\<newline>User: hi\<newline>\<newline>Assistant:''"
    by simp
  from generic
    build_prompt_dispatch [of "''TinyLlama/TinyLlama-1.1B-Chat-v1.0''" "''hi''" None "[]" "[]"]
  have "build_prompt ''TinyLlama/TinyLlama-1.1B-Chat-v1.0'' ''hi'' None
       = ''User: '' @ ''hi'' @ ''\<newline>\<newline>Assistant:''"
    by blast
  then have c: "build_prompt ''TinyLlama/TinyLlama-1.1B-Chat-v1.0'' ''hi'' None
       = ''User: hi\<newline>\<newline>Assistant:''"
    by simp
  from build_prompt_dispatch [of "''Llama-3-Mistral-Gemma''" "''hi''" None "[]" "[]"]
  have "build_prompt ''Llama-3-Mistral-Gemma'' ''hi'' None =
          template (spec_dispatch ''Llama-3-Mistral-Gemma'') ''hi'' None"
    by blast
  then have d: "build_prompt ''Llama-3-Mistral-Gemma'' ''hi'' None = template Llama3 ''hi'' None"
    by (simp only: spec_dispatch_examples)
  from same a generic b c d show ?thesis
    by blast
qed

text \<open>
  C7. For every message and every system instruction, given or not, the prompt for
  \<open>meta-llama/Meta-Llama-3-8B-Instruct\<close> contains \<open><|begin_of_text|>\<close> and \<open><|eot_id|>\<close>,
  and the prompt for \<open>mistralai/Mistral-7B-Instruct-v0.3\<close> starts with \<open><s>[INST] \<close> and
  ends with \<open> [/INST]\<close>.
\<close>

theorem llama3_and_mistral_prompt_markers:
  "sublist ''<|begin_of_text|>''
     (build_prompt ''meta-llama/Meta-Llama-3-8B-Instruct'' message system_prompt)
   \<and> sublist ''<|eot_id|>''
       (build_prompt ''meta-llama/Meta-Llama-3-8B-Instruct'' message system_prompt)
   \<and> prefix ''<s>[INST] ''
       (build_prompt ''mistralai/Mistral-7B-Instruct-v0.3'' message system_prompt)
   \<and> suffix '' [/INST]''
       (build_prompt ''mistralai/Mistral-7B-Instruct-v0.3'' message system_prompt)"
proof (intro conjI)
  let ?llama = "build_prompt ''meta-llama/Meta-Llama-3-8B-Instruct'' message system_prompt"
  let ?mistral = "build_prompt ''mistralai/Mistral-7B-Instruct-v0.3'' message system_prompt"
  have "prefix ''<|begin_of_text|>'' ?llama"
    by (simp add: build_prompt_examples)
  then show "sublist ''<|begin_of_text|>'' ?llama"
    by (rule prefix_imp_sublist)
  have "?llama =
      (''<|begin_of_text|><|start_header_id|>system<|end_header_id|>\<newline>\<newline>''
        @ if_truthy system_prompt (\<lambda>s. s @ ''<|eot_id|>'') []
        @ ''<|start_header_id|>user<|end_header_id|>\<newline>\<newline>'' @ message)
      @ ''<|eot_id|>'' @ ''<|start_header_id|>assistant<|end_header_id|>\<newline>\<newline>''"
    by (simp add: build_prompt_examples)
  then show "sublist ''<|eot_id|>'' ?llama"
    by (simp only: sublist_appendI)
  show "prefix ''<s>[INST] '' ?mistral"
    by (cases system_prompt) (simp_all add: build_prompt_examples if_truthy_def)
  have "\<exists>body. ?mistral = body @ '' [/INST]''"
    by (cases system_prompt) (simp_all add: build_prompt_examples if_truthy_def)
  then show "suffix '' [/INST]'' ?mistral"
    by (auto simp add: suffix_def)
qed

section \<open>Generation adapter\<close>






end
